theory Spec2Isabelle
  imports Main "HOL-Library.Sublist" "HOL-Library.Multiset"
begin

section \<open>Data model of \<open>compressor_toolkit/precompilers.py\<close>\<close>

text \<open>
  The module defines three classes on top of the base class \<open>CompilerFilter\<close> of
  django-compressor: \<open>BaseCompiler\<close> (the method \<open>input\<close> and the static method
  \<open>get_all_static\<close>), \<open>SCSSCompiler\<close> and \<open>ES6Compiler\<close> (a command template, an input
  file extension and a constructor each).

  Python values are modelled as follows. A \<open>str\<close> and a \<open>bytes\<close> value are a \<open>string\<close>.
  A tuple of pairs (\<open>self.options\<close>) is a list of pairs. A \<open>dict\<close> is an association list
  in insertion order, and \<open>d.values()\<close> is \<open>map snd d\<close>. A \<open>set\<close> is a list without
  repetition, in the order of first insertion; the order in which Python iterates a set
  is not that order, so iteration goes through the function \<open>set_iter\<close> of the
  environment. An attribute that an object may lack (\<open>hasattr\<close>) and a value that may be
  \<open>None\<close> are an \<open>option\<close>. An exception is a value of type \<open>error\<close>, and a call that may
  raise returns \<open>error + 'a\<close>.
\<close>

text \<open>
  The exceptions: those of \<open>finders.get_finder\<close> (\<open>ImproperlyConfigured\<close>, \<open>ImportError\<close>), of
  \<open>str.encode\<close> (\<open>UnicodeEncodeError\<close>, \<open>LookupError\<close> for an unknown encoding) and of
  \<open>NamedTemporaryFile\<close> (\<open>FileExistsError\<close>), and the errors that the specification names for
  the command builder and the process invoker.
\<close>

datatype error =
    ImproperlyConfigured string
  | ImportError string
  | UnicodeEncodeError
  | LookupError string
  | FileExistsError
  | TemplateSubstitutionError string
  | TemplateSyntaxError
  | CompilationError string

text \<open>
  A storage backend of django.contrib.staticfiles. Only its attribute \<open>location\<close> is read,
  and every backend is taken to have it, as the file system storages of Django's finders
  do.
\<close>

record storage_backend =
  location :: string

text \<open>
  A finder instance, as far as \<open>get_all_static\<close> looks at it: the attribute \<open>storages\<close>
  (a dict from names to storage backends) and the attribute \<open>storage\<close>, each of which
  the finder may lack.
\<close>

record finder =
  storages :: "(string \<times> storage_backend) list option"
  storage :: "storage_backend option"

text \<open>The two Django settings the module reads.\<close>

record settings =
  STATICFILES_FINDERS :: "string list"
  COMPRESS_NODE_MODULES :: "string option"

text \<open>
  What the module takes from outside: \<open>finders.get_finder\<close> (which raises for an identifier it
  cannot resolve), \<open>os.pathsep\<close>, the iteration order of a set, and the codec behind
  \<open>str.encode\<close> (first argument: the name of the encoding).
\<close>

record environment =
  get_finder :: "string \<Rightarrow> error + finder"
  pathsep :: string
  set_iter :: "string list \<Rightarrow> string list"
  encode :: "string \<Rightarrow> string \<Rightarrow> error + string"

section \<open>\<open>BaseCompiler.get_all_static\<close>\<close>

text \<open>\<open>s.add(x)\<close> on a set: nothing changes when \<open>x\<close> is already a member.\<close>

definition set_add :: "'a \<Rightarrow> 'a list \<Rightarrow> 'a list" where
  "set_add x s = (if x \<in> set s then s else s @ [x])"

text \<open>
  The body of the loop of \<open>get_all_static\<close> after the finder has been resolved: the two
  \<open>if hasattr\<close> statements, one after the other (not \<open>elif\<close>).
\<close>

definition add_finder_dirs :: "finder \<Rightarrow> string list \<Rightarrow> string list" where
  "add_finder_dirs fnd static_dirs =
     (let static_dirs1 =
            (case storages fnd of
               None \<Rightarrow> static_dirs
             | Some d \<Rightarrow> fold (\<lambda>st ds. set_add (location st) ds) (map snd d) static_dirs)
      in case storage fnd of
           None \<Rightarrow> static_dirs1
         | Some st \<Rightarrow> set_add (location st) static_dirs1)"

text \<open>
  The loop \<open>for finder in settings.STATICFILES_FINDERS\<close>. \<open>finders.get_finder\<close> is called
  with no \<open>try\<close> around it, so its exception ends the loop and the function.
\<close>

fun get_all_static_loop ::
  "(string \<Rightarrow> error + finder) \<Rightarrow> string list \<Rightarrow> string list \<Rightarrow> error + string list" where
  "get_all_static_loop gf [] static_dirs = Inr static_dirs"
| "get_all_static_loop gf (f # fs) static_dirs =
     (case gf f of
        Inl e \<Rightarrow> Inl e
      | Inr fnd \<Rightarrow> get_all_static_loop gf fs (add_finder_dirs fnd static_dirs))"

definition get_all_static :: "environment \<Rightarrow> settings \<Rightarrow> error + string list" where
  "get_all_static env conf = get_all_static_loop (get_finder env) (STATICFILES_FINDERS conf) []"

text \<open>
  The storage backends a finder exposes: the values of \<open>storages\<close>, then \<open>storage\<close>.
  This is the vocabulary of the properties below, not part of the program.
\<close>

definition exposed_backends :: "finder \<Rightarrow> storage_backend list" where
  "exposed_backends fnd =
     (case storages fnd of None \<Rightarrow> [] | Some d \<Rightarrow> map snd d) @
     (case storage fnd of None \<Rightarrow> [] | Some st \<Rightarrow> [st])"

section \<open>The two toolchains\<close>

text \<open>
  \<open>sep.join(xs)\<close> of Python on a list of strings.
\<close>

fun str_join :: "string \<Rightarrow> string list \<Rightarrow> string" where
  "str_join sep [] = []"
| "str_join sep [x] = x"
| "str_join sep (x # y # ys) = x @ sep @ str_join sep (y # ys)"

datatype compiler_class = BaseCompiler | SCSSCompiler | ES6Compiler

text \<open>The class attribute \<open>infile_ext\<close>; no instance ever assigns it.\<close>

fun infile_ext :: "compiler_class \<Rightarrow> string" where
  "infile_ext BaseCompiler = ''''"
| "infile_ext SCSSCompiler = ''.scss''"
| "infile_ext ES6Compiler = ''.js''"

text \<open>The class attributes \<open>command\<close>: adjacent string literals, joined by Python.\<close>

definition SCSSCompiler_command :: string where
  \<open>SCSSCompiler_command =
     ''node-sass --output-style expanded {paths} {infile} {outfile} && '' @
     ''postcss --use autoprefixer --autoprefixer.browsers "ie >= 9, > 5%" -r {outfile}''\<close>

definition ES6Compiler_command :: string where
  \<open>ES6Compiler_command =
     ''export NODE_PATH={paths} && '' @
     ''browserify "{infile}" -o "{outfile}" --no-bundle-external --node '' @
     ''-t [ {node_modules}/babelify --presets={node_modules}/babel-preset-es2015 ]''\<close>

text \<open>
  A temporary file object: its path, and the bytes written to the object that have not
  reached the disk yet.
\<close>

record tempfile =
  name :: string
  pending :: string

text \<open>
  A compiler instance after the base initialiser has run: the attributes that
  \<open>BaseCompiler.input\<close> reads and writes.
\<close>

record compiler =
  cls :: compiler_class
  command :: string
  options :: "(string \<times> string) list"
  content :: string
  filename :: "string option"
  infile :: "tempfile option"
  default_encoding :: string

text \<open>
  \<open>SCSSCompiler.__init__\<close>. Before the base initialiser runs, the instance has its class and
  the attribute \<open>options\<close> (here \<open>opts\<close>, read through the class); \<open>self.command\<close> is the class
  attribute. The parameter \<open>attrs\<close> is not passed on. The base initialiser
  \<open>CompilerFilter.__init__\<close> belongs to django-compressor and is the parameter \<open>super_init\<close>.
\<close>

definition SCSSCompiler_init ::
  "environment \<Rightarrow> settings \<Rightarrow>
   (compiler_class \<Rightarrow> (string \<times> string) list \<Rightarrow> string \<Rightarrow> string \<Rightarrow> string list \<Rightarrow>
      (string \<times> string) list \<Rightarrow> error + compiler) \<Rightarrow>
   (string \<times> string) list \<Rightarrow> string \<Rightarrow> (string \<times> string) list \<Rightarrow> string list \<Rightarrow>
   (string \<times> string) list \<Rightarrow> error + compiler" where
  "SCSSCompiler_init env conf super_init opts content0 attrs args kwargs =
     (case get_all_static env conf of
        Inl e \<Rightarrow> Inl e
      | Inr static_dirs \<Rightarrow>
          super_init SCSSCompiler
            (opts @ [(''paths'',
                      str_join '' '' (map (\<lambda>s. ''--include-path '' @ s) (set_iter env static_dirs)))])
            content0 SCSSCompiler_command args kwargs)"

text \<open>
  \<open>ES6Compiler.__init__\<close>. \<open>getattr(settings, 'COMPRESS_NODE_MODULES', '/usr/lib/node_modules')\<close>
  is evaluated before \<open>get_all_static()\<close>; it cannot raise.
\<close>

definition ES6Compiler_init ::
  "environment \<Rightarrow> settings \<Rightarrow>
   (compiler_class \<Rightarrow> (string \<times> string) list \<Rightarrow> string \<Rightarrow> string \<Rightarrow> string list \<Rightarrow>
      (string \<times> string) list \<Rightarrow> error + compiler) \<Rightarrow>
   (string \<times> string) list \<Rightarrow> string \<Rightarrow> (string \<times> string) list \<Rightarrow> string list \<Rightarrow>
   (string \<times> string) list \<Rightarrow> error + compiler" where
  "ES6Compiler_init env conf super_init opts content0 attrs args kwargs =
     (let node_modules =
            (case COMPRESS_NODE_MODULES conf of None \<Rightarrow> ''/usr/lib/node_modules'' | Some v \<Rightarrow> v)
      in case get_all_static env conf of
           Inl e \<Rightarrow> Inl e
         | Inr static_dirs \<Rightarrow>
             super_init ES6Compiler
               (opts @ [(''node_modules'', node_modules),
                        (''paths'', str_join (pathsep env) (set_iter env static_dirs))])
               content0 ES6Compiler_command args kwargs)"

section \<open>\<open>BaseCompiler.input\<close>\<close>

text \<open>
  The file system: the bytes stored under each path, and the candidate paths (directory,
  prefix and random part, without the suffix) that the generator of temporary names will
  propose, in order.
\<close>

record world =
  disk :: "string \<rightharpoonup> string"
  temp_names :: "string list"

text \<open>
  \<open>NamedTemporaryFile(mode='wb', suffix=...)\<close>: the first proposed name that is not taken
  is created as an empty file; when every proposal is taken the call raises.
\<close>

fun free_temp_name ::
  "(string \<rightharpoonup> string) \<Rightarrow> string \<Rightarrow> string list \<Rightarrow> (string \<times> string list) option" where
  "free_temp_name d suffix0 [] = None"
| "free_temp_name d suffix0 (c # cs) =
     (if d (c @ suffix0) = None then Some (c @ suffix0, cs) else free_temp_name d suffix0 cs)"

definition NamedTemporaryFile :: "string \<Rightarrow> world \<Rightarrow> (error + tempfile) \<times> world" where
  "NamedTemporaryFile suffix0 w =
     (case free_temp_name (disk w) suffix0 (temp_names w) of
        None \<Rightarrow> (Inl FileExistsError, w\<lparr>temp_names := []\<rparr>)
      | Some (n, rest) \<Rightarrow>
          (Inr \<lparr>name = n, pending = []\<rparr>, w\<lparr>disk := (disk w)(n \<mapsto> []), temp_names := rest\<rparr>))"

text \<open>
  \<open>f.write(bs)\<close> appends to the buffer of the file object; \<open>f.flush()\<close> moves the buffer to
  the disk.
\<close>

definition tempfile_write :: "tempfile \<Rightarrow> string \<Rightarrow> tempfile" where
  "tempfile_write f bs = f\<lparr>pending := pending f @ bs\<rparr>"

definition tempfile_flush :: "tempfile \<Rightarrow> world \<Rightarrow> tempfile \<times> world" where
  "tempfile_flush f w =
     (f\<lparr>pending := []\<rparr>,
      (case disk w (name f) of
         None \<Rightarrow> w
       | Some old \<Rightarrow> w\<lparr>disk := (disk w)(name f \<mapsto> old @ pending f)\<rparr>))"

text \<open>
  \<open>BaseCompiler.input\<close>. The result is the value or exception of the call together with
  the instance and the file system as the call leaves them. \<open>CompilerFilter.input\<close> of
  django-compressor, reached through \<open>super\<close>, is the parameter \<open>super_input\<close>. The test
  \<open>"{infile}" in self.command\<close> is a substring test.
\<close>

definition BaseCompiler_input ::
  "environment \<Rightarrow> (compiler \<Rightarrow> world \<Rightarrow> (error + 'r) \<times> compiler \<times> world) \<Rightarrow>
   compiler \<Rightarrow> world \<Rightarrow> (error + 'r) \<times> compiler \<times> world" where
  "BaseCompiler_input env super_input self w =
     (if infile self = None \<and> sublist ''{infile}'' (command self) then
        (if filename self = None then
           (case NamedTemporaryFile (infile_ext (cls self)) w of
              (Inl e, w1) \<Rightarrow> (Inl e, self, w1)
            | (Inr f, w1) \<Rightarrow>
                (let self1 = self\<lparr>infile := Some f\<rparr> in
                 case encode env (default_encoding self1) (content self1) of
                   Inl e \<Rightarrow> (Inl e, self1, w1)
                 | Inr bs \<Rightarrow>
                     (let (f2, w2) = tempfile_flush (tempfile_write f bs) w1;
                          self2 = self1\<lparr>infile := Some f2\<rparr>;
                          self3 = self2\<lparr>options := options self2 @ [(''infile'', name f2)]\<rparr>
                      in super_input self3 w2)))
         else super_input self w)
      else super_input self w)"

section \<open>Substitution of the command template\<close>

text \<open>
  The substitution of the placeholders and the hand-over of the command to the process
  invoker happen in \<open>CompilerFilter.input\<close> of django-compressor, which this module
  reaches through \<open>super\<close> and which is not among its sources. The definitions of this
  section are written from the specification of the module (section 4.2).
\<close>

text \<open>
  Modelled from the spec: the parts of a command template, ``a string containing zero or
  more named placeholders'' such as \<open>{infile}\<close>. What is missing is the template syntax
  of \<open>CompilerFilter.input\<close>: a template is literal characters and placeholders.
\<close>

datatype piece = Lit char | Placeholder string

text \<open>
  Modelled from the spec: the splitting of a command template into its parts, missing
  with \<open>CompilerFilter.input\<close>. A placeholder is \<open>{name}\<close>; as in a Python format string,
  \<open>{{\<close> and \<open>}}\<close> stand for a single brace, and any other lone brace makes the template
  malformed (the result \<open>None\<close>). The first argument is the name of the placeholder being
  read, if one is open.
\<close>

fun pieces :: "string option \<Rightarrow> string \<Rightarrow> piece list option" where
  "pieces None [] = Some []"
| "pieces (Some n) [] = None"
| "pieces None (c # cs) =
     (if c = CHR ''{'' then
        (case cs of
           [] \<Rightarrow> None
         | c' # cs' \<Rightarrow>
             if c' = CHR ''{'' then map_option ((#) (Lit CHR ''{'')) (pieces None cs')
             else pieces (Some []) cs)
      else if c = CHR ''}'' then
        (case cs of
           [] \<Rightarrow> None
         | c' # cs' \<Rightarrow>
             if c' = CHR ''}'' then map_option ((#) (Lit CHR ''}'')) (pieces None cs')
             else None)
      else map_option ((#) (Lit c)) (pieces None cs))"
| "pieces (Some n) (c # cs) =
     (if c = CHR ''}'' then map_option ((#) (Placeholder n)) (pieces None cs)
      else if c = CHR ''{'' then None
      else pieces (Some (n @ [c])) cs)"

text \<open>
  Modelled from the spec: ``Substitute all placeholders in \<open>command_template\<close> to produce
  the final command string''; ``if a required placeholder has no corresponding resolved
  value, this is a template/configuration error''. Missing with \<open>CompilerFilter.input\<close>.
  The parts are filled from left to right, and the first placeholder without a value
  decides the error.
\<close>

fun fill :: "(string \<rightharpoonup> string) \<Rightarrow> piece list \<Rightarrow> error + string" where
  "fill m [] = Inr []"
| "fill m (Lit c # ps) = (case fill m ps of Inl e \<Rightarrow> Inl e | Inr s \<Rightarrow> Inr (c # s))"
| "fill m (Placeholder n # ps) =
     (case m n of
        None \<Rightarrow> Inl (TemplateSubstitutionError n)
      | Some v \<Rightarrow> (case fill m ps of Inl e \<Rightarrow> Inl e | Inr s \<Rightarrow> Inr (v @ s)))"

text \<open>
  Modelled from the spec: the substitution step of the command builder (4.2, step 4),
  missing with \<open>CompilerFilter.input\<close>: split the template, then fill it from the options
  mapping.
\<close>

definition substitute :: "(string \<rightharpoonup> string) \<Rightarrow> string \<Rightarrow> error + string" where
  "substitute m template =
     (case pieces None template of None \<Rightarrow> Inl TemplateSyntaxError | Some ps \<Rightarrow> fill m ps)"

text \<open>
  Modelled from the spec: the ``final substituted options mapping (name to value)'' of a
  job, which \<open>CompilerFilter.input\<close> (missing) makes from the tuple of pairs
  \<open>self.options\<close>; a later pair for a name replaces an earlier one.
\<close>

definition options_mapping :: "(string \<times> string) list \<Rightarrow> (string \<rightharpoonup> string)" where
  "options_mapping opts = map_of (rev opts)"

text \<open>
  Modelled from the spec: the order of building and executing, missing with
  \<open>CompilerFilter.input\<close>: ``CommandTemplateBuilder materializes a temp file and builds the
  command string, ProcessInvoker executes it'', and a failed substitution ``must fail
  before attempting execution''. The process invoker is the parameter \<open>invoke\<close>; the
  second component of the result lists the commands handed to it.
\<close>

definition build_and_invoke ::
  "(string \<Rightarrow> error + 'r) \<Rightarrow> string \<Rightarrow> (string \<rightharpoonup> string) \<Rightarrow> (error + 'r) \<times> string list" where
  "build_and_invoke invoke template m =
     (case substitute m template of
        Inl e \<Rightarrow> (Inl e, [])
      | Inr cmd \<Rightarrow> (invoke cmd, [cmd]))"

section \<open>Example data\<close>

text \<open>
  Three finders: \<open>fs\<close> with two named storages, \<open>app\<close> with a single storage whose
  location one of the storages of \<open>fs\<close> has too, and \<open>bare\<close> with neither attribute.
  Any other identifier does not resolve.
\<close>

definition finder_of :: "string \<Rightarrow> finder" where
  "finder_of i =
     (if i = ''fs'' then
        \<lparr>storages = Some [(''a'', \<lparr>location = ''/a/static''\<rparr>), (''b'', \<lparr>location = ''/b/static''\<rparr>)],
         storage = None\<rparr>
      else if i = ''app'' then
        \<lparr>storages = None, storage = Some \<lparr>location = ''/a/static''\<rparr>\<rparr>
      else \<lparr>storages = None, storage = None\<rparr>)"

definition example_get_finder :: "string \<Rightarrow> error + finder" where
  "example_get_finder i =
     (if i \<in> {''fs'', ''app'', ''bare''} then Inr (finder_of i) else Inl (ImproperlyConfigured i))"

definition example_env :: environment where
  "example_env =
     \<lparr>get_finder = example_get_finder, pathsep = '':'', set_iter = rev,
      encode = (\<lambda>enc s. if enc = ''utf-8'' then Inr s else Inl (LookupError enc))\<rparr>"

definition example_conf :: settings where
  "example_conf = \<lparr>STATICFILES_FINDERS = [''fs'', ''bare'', ''app''], COMPRESS_NODE_MODULES = None\<rparr>"

text \<open>
  A style-sheet job as the base initialiser leaves it, and a file system in which the
  first name the generator proposes is taken.
\<close>

definition example_job :: compiler where
  "example_job =
     \<lparr>cls = SCSSCompiler, command = SCSSCompiler_command,
      options = [(''paths'', ''--include-path /b/static --include-path /a/static'')],
      content = ''body{color:red}'', filename = None, infile = None,
      default_encoding = ''utf-8''\<rparr>"

definition example_world :: world where
  "example_world =
     \<lparr>disk = [''/tmp/tmpaaa.scss'' \<mapsto> ''x''], temp_names = [''/tmp/tmpaaa'', ''/tmp/tmpbbb'']\<rparr>"

text \<open>
  A stand-in for \<open>CompilerFilter.input\<close> that reports what it is given: the path of the
  input file, the options and the bytes on disk under \<open>/tmp/tmpbbb.scss\<close>.
\<close>

definition example_super_input ::
  "compiler \<Rightarrow> world \<Rightarrow>
   (error + string option \<times> (string \<times> string) list \<times> string option) \<times> compiler \<times> world" where
  "example_super_input self w =
     (Inr (map_option name (infile self), options self, disk w ''/tmp/tmpbbb.scss''), self, w)"

text \<open>
  A stand-in for \<open>CompilerFilter.__init__\<close>: it stores what it is given and appends the
  keyword arguments to the options.
\<close>

definition example_super_init ::
  "compiler_class \<Rightarrow> (string \<times> string) list \<Rightarrow> string \<Rightarrow> string \<Rightarrow> string list \<Rightarrow>
   (string \<times> string) list \<Rightarrow> error + compiler" where
  "example_super_init c opts content0 command0 args kwargs =
     Inr \<lparr>cls = c, command = command0, options = opts @ kwargs, content = content0,
          filename = None, infile = None, default_encoding = ''utf-8''\<rparr>"

section \<open>Properties of \<open>get_all_static\<close>\<close>

lemma set_set_add: "set (set_add x s) = insert x (set s)"
  by (auto simp: set_add_def)

lemma distinct_set_add: "distinct s \<Longrightarrow> distinct (set_add x s)"
  by (simp add: set_add_def)

lemma set_fold_set_add:
  "set (fold (\<lambda>st ds. set_add (location st) ds) bs s) = set s \<union> location ` set bs"
  by (induction bs arbitrary: s) (auto simp: set_set_add)

lemma distinct_fold_set_add:
  "distinct s \<Longrightarrow> distinct (fold (\<lambda>st ds. set_add (location st) ds) bs s)"
  by (induction bs arbitrary: s) (simp_all add: distinct_set_add)

lemma set_add_finder_dirs:
  "set (add_finder_dirs fnd s) = set s \<union> location ` set (exposed_backends fnd)"
  by (auto simp: add_finder_dirs_def exposed_backends_def Let_def set_fold_set_add set_set_add
           split: option.splits)

lemma distinct_add_finder_dirs: "distinct s \<Longrightarrow> distinct (add_finder_dirs fnd s)"
  by (simp add: add_finder_dirs_def Let_def distinct_fold_set_add distinct_set_add
           split: option.splits)

lemma get_all_static_loop_resolved:
  assumes "\<forall>i \<in> set ids. gf i = Inr (fd i)"
  shows "\<exists>dirs. get_all_static_loop gf ids s = Inr dirs \<and>
           set dirs = set s \<union> location ` (\<Union>i \<in> set ids. set (exposed_backends (fd i))) \<and>
           (distinct s \<longrightarrow> distinct dirs)"
  using assms
proof (induction ids arbitrary: s)
  case Nil
  then show ?case by simp
next
  case (Cons f fs)
  from Cons.prems have f: "gf f = Inr (fd f)" and rest: "\<forall>i \<in> set fs. gf i = Inr (fd i)"
    by simp_all
  from Cons.IH [OF rest, of "add_finder_dirs (fd f) s"]
  obtain dirs where dirs: "get_all_static_loop gf fs (add_finder_dirs (fd f) s) = Inr dirs"
    and elems: "set dirs = set (add_finder_dirs (fd f) s) \<union>
                  location ` (\<Union>i \<in> set fs. set (exposed_backends (fd i)))"
    and dist: "distinct (add_finder_dirs (fd f) s) \<longrightarrow> distinct dirs"
    by blast
  have "get_all_static_loop gf (f # fs) s = Inr dirs"
    using f dirs by simp
  moreover have "set dirs = set s \<union> location ` (\<Union>i \<in> set (f # fs). set (exposed_backends (fd i)))"
    using elems by (auto simp: set_add_finder_dirs)
  moreover have "distinct s \<longrightarrow> distinct dirs"
    using dist by (simp add: distinct_add_finder_dirs)
  ultimately show ?case by blast
qed

lemma in_exposed_backends:
  "b \<in> set (exposed_backends fnd) \<longleftrightarrow>
     (\<exists>d. storages fnd = Some d \<and> b \<in> set (map snd d)) \<or> storage fnd = Some b"
  by (cases "storages fnd"; cases "storage fnd") (auto simp: exposed_backends_def)

lemma count_list_distinct: "distinct xs \<Longrightarrow> x \<in> set xs \<Longrightarrow> count_list xs x = 1"
  by (induction xs) auto

lemma get_all_static_loop_append:
  "get_all_static_loop gf (pre @ post) s =
     (case get_all_static_loop gf pre s of
        Inl e \<Rightarrow> Inl e
      | Inr s' \<Rightarrow> get_all_static_loop gf post s')"
  by (induction pre arbitrary: s) (simp_all split: sum.splits)

lemma add_finder_dirs_neither:
  "storages fnd = None \<Longrightarrow> storage fnd = None \<Longrightarrow> add_finder_dirs fnd s = s"
  by (simp add: add_finder_dirs_def)

lemma get_all_static_loop_first_failure:
  assumes "\<forall>i \<in> set pre. \<exists>fnd. gf i = Inr fnd" and "gf f = Inl e"
  shows "get_all_static_loop gf (pre @ f # post) s = Inl e"
  using assms by (induction pre arbitrary: s) auto

lemma get_all_static_loop_failure:
  assumes "f \<in> set ids" and "gf f = Inl e"
  shows "\<exists>e' g. get_all_static_loop gf ids s = Inl e' \<and> g \<in> set ids \<and> gf g = Inl e'"
  using assms
proof (induction ids arbitrary: s)
  case Nil
  then show ?case by simp
next
  case (Cons i ids)
  show ?case
  proof (cases "gf i")
    case (Inl e0)
    then show ?thesis by auto
  next
    case (Inr fnd)
    with Cons.prems have "f \<in> set ids" by auto
    from Cons.IH [OF this Cons.prems(2), of "add_finder_dirs fnd s"] Inr show ?thesis
      by auto
  qed
qed

text \<open>
  C1. When every configured finder identifier resolves, \<open>get_all_static\<close> returns a
  collection without repetition whose elements are exactly the locations of the storage
  backends the resolved finders expose: the location of each exposed backend occurs in it
  exactly once, also when several finders (or several backends) have the same location,
  and its size is the number of different locations.
\<close>

theorem get_all_static_one_path_per_backend:
  assumes "\<forall>i \<in> set (STATICFILES_FINDERS conf). get_finder env i = Inr (fd i)"
  shows "\<exists>dirs. get_all_static env conf = Inr dirs \<and>
           distinct dirs \<and>
           set dirs =
             location ` (\<Union>i \<in> set (STATICFILES_FINDERS conf). set (exposed_backends (fd i))) \<and>
           (\<forall>i \<in> set (STATICFILES_FINDERS conf). \<forall>b \<in> set (exposed_backends (fd i)).
              count_list dirs (location b) = 1) \<and>
           length dirs =
             card (location ` (\<Union>i \<in> set (STATICFILES_FINDERS conf). set (exposed_backends (fd i))))"
proof -
  from get_all_static_loop_resolved [OF assms, of "[]"]
  obtain dirs where res: "get_all_static env conf = Inr dirs"
    and elems: "set dirs =
      location ` (\<Union>i \<in> set (STATICFILES_FINDERS conf). set (exposed_backends (fd i)))"
    and dist: "distinct dirs"
    by (auto simp: get_all_static_def)
  have once: "\<forall>i \<in> set (STATICFILES_FINDERS conf). \<forall>b \<in> set (exposed_backends (fd i)).
      count_list dirs (location b) = 1"
  proof (intro ballI)
    fix i b
    assume "i \<in> set (STATICFILES_FINDERS conf)" and "b \<in> set (exposed_backends (fd i))"
    then have "location b \<in> set dirs" unfolding elems by blast
    with dist show "count_list dirs (location b) = 1" by (rule count_list_distinct)
  qed
  have "length dirs = card (set dirs)"
    using dist by (simp add: distinct_card)
  with res elems dist once show ?thesis by auto
qed

theorem get_all_static_one_path_per_backend_witness:
  "map (get_finder example_env) (STATICFILES_FINDERS example_conf) =
     map (\<lambda>i. Inr (finder_of i)) (STATICFILES_FINDERS example_conf) \<and>
   get_all_static example_env example_conf = Inr [''/a/static'', ''/b/static''] \<and>
   map location (concat (map (\<lambda>i. exposed_backends (finder_of i)) (STATICFILES_FINDERS example_conf))) =
     [''/a/static'', ''/b/static'', ''/a/static''] \<and>
   count_list [''/a/static'', ''/b/static''] ''/a/static'' = 1"
proof -
  have h: "\<forall>i \<in> set (STATICFILES_FINDERS example_conf). get_finder example_env i = Inr (finder_of i)"
    by (simp add: example_conf_def example_env_def example_get_finder_def)
  have v: "get_all_static example_env example_conf = Inr [''/a/static'', ''/b/static'']"
    by (simp add: get_all_static_def example_env_def example_conf_def example_get_finder_def
          finder_of_def add_finder_dirs_def set_add_def)
  have b: "map location (concat (map (\<lambda>i. exposed_backends (finder_of i))
             (STATICFILES_FINDERS example_conf))) = [''/a/static'', ''/b/static'', ''/a/static'']"
    by (simp add: example_conf_def finder_of_def exposed_backends_def)
  from get_all_static_one_path_per_backend [OF h] v
  have "count_list [''/a/static'', ''/b/static''] (location \<lparr>location = ''/a/static''\<rparr>) = 1"
    by (auto simp: example_conf_def finder_of_def exposed_backends_def)
  with h v b show ?thesis by simp
qed

text \<open>
  C2. When every configured finder identifier resolves, the result contains the
  location of every backend in the \<open>storages\<close> mapping of each resolved finder and the
  location of the \<open>storage\<close> of each resolved finder, and nothing else. A finder with
  neither attribute contributes nothing and raises nothing: the call returns what it
  returns without that identifier in the configuration.
\<close>

theorem get_all_static_finder_contributions:
  "((\<forall>i \<in> set (STATICFILES_FINDERS conf). get_finder env i = Inr (fd i)) \<longrightarrow>
      (\<exists>dirs. get_all_static env conf = Inr dirs \<and>
         (\<forall>i \<in> set (STATICFILES_FINDERS conf).
            (\<forall>d. storages (fd i) = Some d \<longrightarrow> (\<forall>st \<in> set (map snd d). location st \<in> set dirs)) \<and>
            (\<forall>st. storage (fd i) = Some st \<longrightarrow> location st \<in> set dirs)) \<and>
         (\<forall>p \<in> set dirs. \<exists>i \<in> set (STATICFILES_FINDERS conf).
            (\<exists>d. storages (fd i) = Some d \<and> p \<in> location ` set (map snd d)) \<or>
            (\<exists>st. storage (fd i) = Some st \<and> p = location st)))) \<and>
   (get_finder env f = Inr fnd \<and> storages fnd = None \<and> storage fnd = None \<longrightarrow>
      get_all_static env (conf\<lparr>STATICFILES_FINDERS := pre @ f # post\<rparr>) =
      get_all_static env (conf\<lparr>STATICFILES_FINDERS := pre @ post\<rparr>))"
proof (intro conjI impI)
  assume res: "\<forall>i \<in> set (STATICFILES_FINDERS conf). get_finder env i = Inr (fd i)"
  from get_all_static_loop_resolved [OF res, of "[]"]
  obtain dirs where r: "get_all_static env conf = Inr dirs"
    and elems: "set dirs =
      location ` (\<Union>i \<in> set (STATICFILES_FINDERS conf). set (exposed_backends (fd i)))"
    by (auto simp: get_all_static_def)
  have mem: "location b \<in> set dirs"
    if "i \<in> set (STATICFILES_FINDERS conf)" and "b \<in> set (exposed_backends (fd i))" for i b
    unfolding elems using that by blast
  have a: "\<forall>i \<in> set (STATICFILES_FINDERS conf).
            (\<forall>d. storages (fd i) = Some d \<longrightarrow> (\<forall>st \<in> set (map snd d). location st \<in> set dirs)) \<and>
            (\<forall>st. storage (fd i) = Some st \<longrightarrow> location st \<in> set dirs)"
  proof (intro ballI conjI allI impI)
    fix i d st
    assume "i \<in> set (STATICFILES_FINDERS conf)" and "storages (fd i) = Some d"
      and "st \<in> set (map snd d)"
    then show "location st \<in> set dirs"
      by (intro mem [of i]) (simp_all add: in_exposed_backends)
  next
    fix i st
    assume "i \<in> set (STATICFILES_FINDERS conf)" and "storage (fd i) = Some st"
    then show "location st \<in> set dirs"
      by (intro mem [of i]) (simp_all add: in_exposed_backends)
  qed
  have b: "\<forall>p \<in> set dirs. \<exists>i \<in> set (STATICFILES_FINDERS conf).
            (\<exists>d. storages (fd i) = Some d \<and> p \<in> location ` set (map snd d)) \<or>
            (\<exists>st. storage (fd i) = Some st \<and> p = location st)"
  proof
    fix p
    assume "p \<in> set dirs"
    then obtain i b where i: "i \<in> set (STATICFILES_FINDERS conf)"
      and b: "b \<in> set (exposed_backends (fd i))" and p: "p = location b"
      unfolding elems by blast
    from b have "(\<exists>d. storages (fd i) = Some d \<and> b \<in> set (map snd d)) \<or> storage (fd i) = Some b"
      by (simp only: in_exposed_backends)
    with p have "(\<exists>d. storages (fd i) = Some d \<and> p \<in> location ` set (map snd d)) \<or>
            (\<exists>st. storage (fd i) = Some st \<and> p = location st)"
      by blast
    with i show "\<exists>i \<in> set (STATICFILES_FINDERS conf).
            (\<exists>d. storages (fd i) = Some d \<and> p \<in> location ` set (map snd d)) \<or>
            (\<exists>st. storage (fd i) = Some st \<and> p = location st)"
      by blast
  qed
  from r a b
  show "\<exists>dirs. get_all_static env conf = Inr dirs \<and>
         (\<forall>i \<in> set (STATICFILES_FINDERS conf).
            (\<forall>d. storages (fd i) = Some d \<longrightarrow> (\<forall>st \<in> set (map snd d). location st \<in> set dirs)) \<and>
            (\<forall>st. storage (fd i) = Some st \<longrightarrow> location st \<in> set dirs)) \<and>
         (\<forall>p \<in> set dirs. \<exists>i \<in> set (STATICFILES_FINDERS conf).
            (\<exists>d. storages (fd i) = Some d \<and> p \<in> location ` set (map snd d)) \<or>
            (\<exists>st. storage (fd i) = Some st \<and> p = location st))"
    by blast
next
  assume "get_finder env f = Inr fnd \<and> storages fnd = None \<and> storage fnd = None"
  then show "get_all_static env (conf\<lparr>STATICFILES_FINDERS := pre @ f # post\<rparr>) =
      get_all_static env (conf\<lparr>STATICFILES_FINDERS := pre @ post\<rparr>)"
    by (simp add: get_all_static_def get_all_static_loop_append add_finder_dirs_neither
          split: sum.splits)
qed

theorem get_all_static_finder_contributions_witness:
  "map (get_finder example_env) (STATICFILES_FINDERS example_conf) =
     map (\<lambda>i. Inr (finder_of i)) (STATICFILES_FINDERS example_conf) \<and>
   get_finder example_env ''bare'' = Inr (finder_of ''bare'') \<and>
   storages (finder_of ''bare'') = None \<and> storage (finder_of ''bare'') = None \<and>
   get_all_static example_env example_conf = Inr [''/a/static'', ''/b/static''] \<and>
   get_all_static example_env (example_conf\<lparr>STATICFILES_FINDERS := [''fs''] @ [''app'']\<rparr>) =
     Inr [''/a/static'', ''/b/static'']"
proof -
  have h: "\<forall>i \<in> set (STATICFILES_FINDERS example_conf). get_finder example_env i = Inr (finder_of i)"
    by (simp add: example_conf_def example_env_def example_get_finder_def)
  have n: "get_finder example_env ''bare'' = Inr (finder_of ''bare'') \<and>
      storages (finder_of ''bare'') = None \<and> storage (finder_of ''bare'') = None"
    by (simp add: example_env_def example_get_finder_def finder_of_def)
  have v: "get_all_static example_env example_conf = Inr [''/a/static'', ''/b/static'']"
    by (simp add: get_all_static_def example_env_def example_conf_def example_get_finder_def
          finder_of_def add_finder_dirs_def set_add_def)
  have c: "example_conf\<lparr>STATICFILES_FINDERS := [''fs''] @ ''bare'' # [''app'']\<rparr> = example_conf"
    by (simp add: example_conf_def)
  from get_all_static_finder_contributions
         [of example_conf example_env finder_of "''bare''" "finder_of ''bare''" "[''fs'']" "[''app'']"]
       n
  have "get_all_static example_env (example_conf\<lparr>STATICFILES_FINDERS := [''fs''] @ ''bare'' # [''app'']\<rparr>) =
        get_all_static example_env (example_conf\<lparr>STATICFILES_FINDERS := [''fs''] @ [''app'']\<rparr>)"
    by blast
  with c v have "get_all_static example_env (example_conf\<lparr>STATICFILES_FINDERS := [''fs''] @ [''app'']\<rparr>) =
     Inr [''/a/static'', ''/b/static'']"
    by simp
  with h n v show ?thesis by simp
qed

text \<open>
  C9. A configured finder identifier that does not resolve makes \<open>get_all_static\<close> raise:
  the call ends with the exception of \<open>finders.get_finder\<close> for the first identifier of
  the configuration that does not resolve, and never returns a set in which that finder
  is merely missing.
\<close>

theorem get_all_static_propagates_resolution_error:
  "(f \<in> set (STATICFILES_FINDERS conf) \<and> get_finder env f = Inl e \<longrightarrow>
      (\<exists>e' g. get_all_static env conf = Inl e' \<and> g \<in> set (STATICFILES_FINDERS conf) \<and>
         get_finder env g = Inl e')) \<and>
   (STATICFILES_FINDERS conf = pre @ f # post \<and>
    (\<forall>i \<in> set pre. \<exists>fnd. get_finder env i = Inr fnd) \<and> get_finder env f = Inl e \<longrightarrow>
      get_all_static env conf = Inl e)"
  using get_all_static_loop_failure [of f "STATICFILES_FINDERS conf" "get_finder env" e "[]"]
        get_all_static_loop_first_failure [of pre "get_finder env" f e post "[]"]
  by (auto simp: get_all_static_def)

theorem get_all_static_propagates_resolution_error_witness:
  "''nope'' \<in> set [''fs'', ''nope'', ''app''] \<and>
   get_finder example_env ''nope'' = Inl (ImproperlyConfigured ''nope'') \<and>
   get_all_static example_env (example_conf\<lparr>STATICFILES_FINDERS := [''fs'', ''nope'', ''app'']\<rparr>) =
     Inl (ImproperlyConfigured ''nope'')"
proof -
  have g: "get_finder example_env ''nope'' = Inl (ImproperlyConfigured ''nope'')"
    by (simp add: example_env_def example_get_finder_def)
  have p: "\<forall>i \<in> set [''fs'']. \<exists>fnd. get_finder example_env i = Inr fnd"
    by (simp add: example_env_def example_get_finder_def)
  have s: "STATICFILES_FINDERS (example_conf\<lparr>STATICFILES_FINDERS := [''fs'', ''nope'', ''app'']\<rparr>) =
      [''fs''] @ ''nope'' # [''app'']"
    by simp
  from get_all_static_propagates_resolution_error
         [of "''nope''" "example_conf\<lparr>STATICFILES_FINDERS := [''fs'', ''nope'', ''app'']\<rparr>"
             example_env "ImproperlyConfigured ''nope''" "[''fs'']" "[''app'']"]
       g p s
  have "get_all_static example_env (example_conf\<lparr>STATICFILES_FINDERS := [''fs'', ''nope'', ''app'']\<rparr>) =
     Inl (ImproperlyConfigured ''nope'')"
    by blast
  with g show ?thesis by simp
qed

section \<open>Properties of \<open>BaseCompiler.input\<close>\<close>

lemma free_temp_name_Some:
  "free_temp_name d s cs = Some (n, rest) \<Longrightarrow> d n = None \<and> suffix s n \<and> (\<exists>c \<in> set cs. n = c @ s)"
  by (induction cs) (auto simp: suffix_def split: if_splits)

lemma free_temp_name_exists:
  "\<exists>c \<in> set cs. d (c @ s) = None \<Longrightarrow> \<exists>n rest. free_temp_name d s cs = Some (n, rest)"
  by (induction cs) auto

text \<open>
  C3. Let the command of a job contain \<open>{infile}\<close>, and let the job have neither an
  input file nor a file name when \<open>input\<close> runs. If a free temporary name is available
  and the content can be encoded with the default encoding, then \<open>input\<close> creates a file
  that did not exist, under a name that ends in the extension of the class of the job
  (\<open>.scss\<close> for \<open>SCSSCompiler\<close>, \<open>.js\<close> for \<open>ES6Compiler\<close>); when it goes on to the base
  class, the bytes of the encoded content are on disk under that name with nothing left
  in the buffer, no other file has changed, the job holds the file object, and the pair
  \<open>('infile', name)\<close> is the last of its options.
\<close>

theorem BaseCompiler_input_creates_temp_file:
  assumes "infile self = None" and "sublist ''{infile}'' (command self)"
    and "filename self = None"
    and "\<exists>c \<in> set (temp_names w). disk w (c @ infile_ext (cls self)) = None"
    and "encode env (default_encoding self) (content self) = Inr bs"
  shows "\<exists>f w'. BaseCompiler_input env super_input self w =
              super_input (self\<lparr>infile := Some f, options := options self @ [(''infile'', name f)]\<rparr>) w' \<and>
           suffix (infile_ext (cls self)) (name f) \<and>
           (cls self = SCSSCompiler \<longrightarrow> suffix ''.scss'' (name f)) \<and>
           (cls self = ES6Compiler \<longrightarrow> suffix ''.js'' (name f)) \<and>
           disk w (name f) = None \<and>
           disk w' (name f) = Some bs \<and> pending f = [] \<and>
           (\<forall>p. p \<noteq> name f \<longrightarrow> disk w' p = disk w p)"
proof -
  from free_temp_name_exists [OF assms(4)]
  obtain n rest where fr: "free_temp_name (disk w) (infile_ext (cls self)) (temp_names w) = Some (n, rest)"
    by blast
  from free_temp_name_Some [OF fr]
  have new: "disk w n = None" and suf: "suffix (infile_ext (cls self)) n"
    by simp_all
  define f where "f = \<lparr>name = n, pending = []\<rparr>"
  define w' where "w' = w\<lparr>temp_names := rest, disk := (disk w)(n \<mapsto> bs)\<rparr>"
  have run: "BaseCompiler_input env super_input self w =
      super_input (self\<lparr>infile := Some f, options := options self @ [(''infile'', name f)]\<rparr>) w'"
    using assms(1,2,3,5) fr
    by (simp add: BaseCompiler_input_def NamedTemporaryFile_def tempfile_write_def
          tempfile_flush_def f_def w'_def Let_def)
  have "suffix (infile_ext (cls self)) (name f)"
    using suf by (simp add: f_def)
  moreover from this have "cls self = SCSSCompiler \<longrightarrow> suffix ''.scss'' (name f)"
    and "cls self = ES6Compiler \<longrightarrow> suffix ''.js'' (name f)"
    by auto
  moreover have "disk w (name f) = None"
    using new by (simp add: f_def)
  moreover have "disk w' (name f) = Some bs" and "pending f = []"
    and "\<forall>p. p \<noteq> name f \<longrightarrow> disk w' p = disk w p"
    by (simp_all add: f_def w'_def)
  ultimately show ?thesis
    using run by blast
qed

theorem BaseCompiler_input_creates_temp_file_witness:
  "infile example_job = None \<and> sublist ''{infile}'' (command example_job) \<and>
   filename example_job = None \<and>
   ''/tmp/tmpbbb'' \<in> set (temp_names example_world) \<and>
   disk example_world (''/tmp/tmpbbb'' @ infile_ext (cls example_job)) = None \<and>
   encode example_env (default_encoding example_job) (content example_job) = Inr ''body{color:red}'' \<and>
   fst (BaseCompiler_input example_env example_super_input example_job example_world) =
     Inr (Some ''/tmp/tmpbbb.scss'',
          [(''paths'', ''--include-path /b/static --include-path /a/static''),
           (''infile'', ''/tmp/tmpbbb.scss'')],
          Some ''body{color:red}'')"
proof -
  have h1: "infile example_job = None" and h3: "filename example_job = None"
    by (simp_all add: example_job_def)
  have h2: "sublist ''{infile}'' (command example_job)"
    by (simp add: example_job_def SCSSCompiler_command_def sublist_Cons_right)
  have h4a: "''/tmp/tmpbbb'' \<in> set (temp_names example_world)"
    and h4b: "disk example_world (''/tmp/tmpbbb'' @ infile_ext (cls example_job)) = None"
    by (simp_all add: example_world_def example_job_def)
  from h4a h4b
  have h4: "\<exists>c \<in> set (temp_names example_world). disk example_world (c @ infile_ext (cls example_job)) = None"
    by blast
  have h5: "encode example_env (default_encoding example_job) (content example_job) = Inr ''body{color:red}''"
    by (simp add: example_env_def example_job_def)
  from BaseCompiler_input_creates_temp_file [OF h1 h2 h3 h4 h5, of example_super_input]
  obtain f w' where run: "BaseCompiler_input example_env example_super_input example_job example_world =
      example_super_input
        (example_job\<lparr>infile := Some f, options := options example_job @ [(''infile'', name f)]\<rparr>) w'"
    and "disk w' (name f) = Some ''body{color:red}''"
    by blast
  have v: "fst (BaseCompiler_input example_env example_super_input example_job example_world) =
     Inr (Some ''/tmp/tmpbbb.scss'',
          [(''paths'', ''--include-path /b/static --include-path /a/static''),
           (''infile'', ''/tmp/tmpbbb.scss'')],
          Some ''body{color:red}'')"
    using h2
    by (simp add: BaseCompiler_input_def NamedTemporaryFile_def tempfile_write_def
          tempfile_flush_def example_super_input_def example_job_def example_world_def
          example_env_def Let_def)
  from h1 h2 h3 h4a h4b h5 v run show ?thesis by simp
qed

text \<open>
  The other paths of \<open>input\<close>. With an input file, with a file name, or without
  \<open>{infile}\<close> in the command, the call is the call of the base class. When the codec
  raises, the temporary file has been created already: the exception leaves \<open>input\<close>
  with the empty file on disk and the file object in \<open>self.infile\<close>; the base class is not
  reached, and no statement of this module closes the file.
\<close>

lemma BaseCompiler_input_no_temp_file:
  "infile self \<noteq> None \<or> \<not> sublist ''{infile}'' (command self) \<or> filename self \<noteq> None \<Longrightarrow>
     BaseCompiler_input env super_input self w = super_input self w"
  by (auto simp: BaseCompiler_input_def)

lemma BaseCompiler_input_encode_error:
  assumes "infile self = None" and "sublist ''{infile}'' (command self)"
    and "filename self = None"
    and "free_temp_name (disk w) (infile_ext (cls self)) (temp_names w) = Some (n, rest)"
    and "encode env (default_encoding self) (content self) = Inl e"
  shows "BaseCompiler_input env super_input self w =
           (Inl e, self\<lparr>infile := Some \<lparr>name = n, pending = []\<rparr>\<rparr>,
            w\<lparr>disk := (disk w)(n \<mapsto> []), temp_names := rest\<rparr>)"
  using assms by (simp add: BaseCompiler_input_def NamedTemporaryFile_def Let_def)

section \<open>Properties of the constructors and of the built command\<close>

lemma sublist_in_context: "sublist x v \<Longrightarrow> sublist x (a @ v @ b)"
  unfolding sublist_def by (metis append.assoc)

lemma str_join_sublist: "x \<in> set xs \<Longrightarrow> sublist x (str_join sep xs)"
proof (induction sep xs rule: str_join.induct)
  case (1 sep)
  then show ?case by simp
next
  case (2 sep y)
  then show ?case by simp
next
  case (3 sep y z zs)
  show ?case
  proof (cases "x = y")
    case True
    then show ?thesis by simp
  next
    case False
    with "3.prems" have "x \<in> set (z # zs)" by simp
    then have "sublist x (str_join sep (z # zs))" by (rule "3.IH")
    then have "sublist x ((y @ sep) @ str_join sep (z # zs) @ [])" by (rule sublist_in_context)
    then show ?thesis by simp
  qed
qed

lemma get_all_static_loop_distinct:
  "get_all_static_loop gf ids s = Inr dirs \<Longrightarrow> distinct s \<Longrightarrow> distinct dirs"
  by (induction ids arbitrary: s) (auto simp: distinct_add_finder_dirs split: sum.splits)

lemma get_all_static_distinct: "get_all_static env conf = Inr dirs \<Longrightarrow> distinct dirs"
  unfolding get_all_static_def by (erule get_all_static_loop_distinct) simp

lemma distinct_pair:
  assumes "distinct xs" and "set xs = {a, b}" and "a \<noteq> b"
  shows "xs = [a, b] \<or> xs = [b, a]"
proof -
  have "length xs = card (set xs)" using assms(1) by (simp add: distinct_card)
  also have "\<dots> = 2" using assms(2,3) by simp
  finally obtain x y where xs: "xs = [x, y]"
    by (auto simp: length_Suc_conv numeral_2_eq_2)
  with assms(2) have "{x, y} = {a, b}" by simp
  then show ?thesis unfolding xs by (auto simp: doubleton_eq_iff)
qed

lemma iteration_of_pair:
  assumes "distinct dirs" and "set dirs = {a, b}" and "a \<noteq> b" and "mset ys = mset dirs"
  shows "ys = [a, b] \<or> ys = [b, a]"
proof -
  from assms(4) have "set ys = set dirs" by (rule mset_eq_setD)
  moreover from assms(1,4) have "distinct ys" by (metis mset_eq_imp_distinct_iff)
  ultimately show ?thesis using assms(2,3) by (intro distinct_pair) simp_all
qed

lemma substitute_SCSSCompiler_command:
  assumes "m ''paths'' = Some p" and "m ''infile'' = Some i" and "m ''outfile'' = Some ou"
  shows "substitute m SCSSCompiler_command =
    Inr (''node-sass --output-style expanded '' @ p @ '' '' @ i @ '' '' @ ou @
         '' && postcss --use autoprefixer --autoprefixer.browsers \"ie >= 9, > 5%\" -r '' @ ou)"
  using assms by (simp add: substitute_def SCSSCompiler_command_def)

lemma substitute_ES6Compiler_command:
  assumes "m ''paths'' = Some p" and "m ''infile'' = Some i" and "m ''outfile'' = Some ou"
    and "m ''node_modules'' = Some nm"
  shows "substitute m ES6Compiler_command =
    Inr (''export NODE_PATH='' @ p @ '' && browserify \"'' @ i @ ''\" -o \"'' @ ou @
         ''\" --no-bundle-external --node -t [ '' @ nm @ ''/babelify --presets='' @ nm @
         ''/babel-preset-es2015 ]'')"
  using assms by (simp add: substitute_def ES6Compiler_command_def)

text \<open>
  C4. Let \<open>get_all_static\<close> return the roots \<open>dirs\<close>, and let the iteration of that set
  yield each root once. Then \<open>SCSSCompiler.__init__\<close> hands to the base initialiser the
  options extended by one pair \<open>('paths', v)\<close>, where \<open>v\<close> is the flags
  \<open>--include-path <root>\<close>, one for each root, joined by single spaces. Every such flag
  is a substring of \<open>v\<close> and of every command built from the template with \<open>v\<close> for
  \<open>{paths}\<close>; for the roots \<open>/a/static\<close> and \<open>/b/static\<close> the value is the two flags in one
  order or the other, and the command contains both.
\<close>

theorem SCSSCompiler_paths_option:
  assumes "get_all_static env conf = Inr dirs" and "mset (set_iter env dirs) = mset dirs"
  shows "\<exists>flags v.
           SCSSCompiler_init env conf super_init opts content0 attrs args kwargs =
             super_init SCSSCompiler (opts @ [(''paths'', v)]) content0 SCSSCompiler_command args kwargs \<and>
           mset flags = mset (map (\<lambda>d. ''--include-path '' @ d) dirs) \<and>
           v = str_join '' '' flags \<and>
           options_mapping (opts @ [(''paths'', v)]) ''paths'' = Some v \<and>
           (\<forall>d \<in> set dirs. sublist (''--include-path '' @ d) v) \<and>
           (set dirs = {''/a/static'', ''/b/static''} \<longrightarrow>
              v = ''--include-path /a/static --include-path /b/static'' \<or>
              v = ''--include-path /b/static --include-path /a/static'') \<and>
           (\<forall>m i ou. m ''paths'' = Some v \<and> m ''infile'' = Some i \<and> m ''outfile'' = Some ou \<longrightarrow>
              (\<exists>cmd. substitute m SCSSCompiler_command = Inr cmd \<and>
                 (\<forall>d \<in> set dirs. sublist (''--include-path '' @ d) cmd) \<and>
                 (set dirs = {''/a/static'', ''/b/static''} \<longrightarrow>
                    sublist ''--include-path /a/static'' cmd \<and>
                    sublist ''--include-path /b/static'' cmd)))"
proof -
  define flags where "flags = map (\<lambda>d. ''--include-path '' @ d) (set_iter env dirs)"
  define v where "v = str_join '' '' flags"
  have init: "SCSSCompiler_init env conf super_init opts content0 attrs args kwargs =
      super_init SCSSCompiler (opts @ [(''paths'', v)]) content0 SCSSCompiler_command args kwargs"
    unfolding SCSSCompiler_init_def v_def flags_def assms(1) by (simp only: sum.case)
  have perm: "mset flags = mset (map (\<lambda>d. ''--include-path '' @ d) dirs)"
    by (simp only: flags_def mset_map assms(2))
  have look: "options_mapping (opts @ [(''paths'', v)]) ''paths'' = Some v"
    by (simp add: options_mapping_def)
  have "set (set_iter env dirs) = set dirs"
    using assms(2) by (rule mset_eq_setD)
  then have each: "\<forall>d \<in> set dirs. sublist (''--include-path '' @ d) v"
    unfolding v_def flags_def by (auto intro!: str_join_sublist)
  have pair: "v = ''--include-path /a/static --include-path /b/static'' \<or>
      v = ''--include-path /b/static --include-path /a/static''"
    if "set dirs = {''/a/static'', ''/b/static''}"
  proof -
    from get_all_static_distinct [OF assms(1)] that assms(2)
    have "set_iter env dirs = [''/a/static'', ''/b/static''] \<or>
        set_iter env dirs = [''/b/static'', ''/a/static'']"
      by (intro iteration_of_pair) simp_all
    then show ?thesis by (auto simp: v_def flags_def)
  qed
  have built: "\<exists>cmd. substitute m SCSSCompiler_command = Inr cmd \<and>
      (\<forall>d \<in> set dirs. sublist (''--include-path '' @ d) cmd) \<and>
      (set dirs = {''/a/static'', ''/b/static''} \<longrightarrow>
         sublist ''--include-path /a/static'' cmd \<and> sublist ''--include-path /b/static'' cmd)"
    if "m ''paths'' = Some v \<and> m ''infile'' = Some i \<and> m ''outfile'' = Some ou" for m i ou
  proof -
    let ?post = "'' '' @ i @ '' '' @ ou @
         '' && postcss --use autoprefixer --autoprefixer.browsers \"ie >= 9, > 5%\" -r '' @ ou"
    let ?cmd = "''node-sass --output-style expanded '' @ v @ ?post"
    from that have s: "substitute m SCSSCompiler_command = Inr ?cmd"
      by (simp add: substitute_SCSSCompiler_command)
    have c: "\<forall>d \<in> set dirs. sublist (''--include-path '' @ d) ?cmd"
      using each by (blast intro: sublist_in_context)
    from c have "set dirs = {''/a/static'', ''/b/static''} \<longrightarrow>
         sublist ''--include-path /a/static'' ?cmd \<and> sublist ''--include-path /b/static'' ?cmd"
      by auto
    with s c show ?thesis by blast
  qed
  show ?thesis
    apply (rule exI [of _ flags])
    apply (rule exI [of _ v])
    apply (intro conjI allI impI)
          apply (rule init)
         apply (rule perm)
        apply (rule v_def)
       apply (rule look)
      apply (rule each)
     apply (erule pair)
    apply (erule built)
    done
qed

theorem SCSSCompiler_paths_option_witness:
  "get_all_static example_env example_conf = Inr [''/a/static'', ''/b/static''] \<and>
   mset (set_iter example_env [''/a/static'', ''/b/static'']) = mset [''/a/static'', ''/b/static''] \<and>
   SCSSCompiler_init example_env example_conf example_super_init [] ''body{color:red}'' [] [] [] =
     Inr \<lparr>cls = SCSSCompiler, command = SCSSCompiler_command,
          options = [(''paths'', ''--include-path /b/static --include-path /a/static'')],
          content = ''body{color:red}'', filename = None, infile = None,
          default_encoding = ''utf-8''\<rparr> \<and>
   substitute
     (options_mapping [(''paths'', ''--include-path /b/static --include-path /a/static''),
                       (''infile'', ''/tmp/tmpbbb.scss''), (''outfile'', ''/tmp/out.css'')])
     SCSSCompiler_command =
     Inr (''node-sass --output-style expanded --include-path /b/static --include-path /a/static '' @
          ''/tmp/tmpbbb.scss /tmp/out.css && postcss --use autoprefixer '' @
          ''--autoprefixer.browsers \"ie >= 9, > 5%\" -r /tmp/out.css'')"
proof -
  have h1: "get_all_static example_env example_conf = Inr [''/a/static'', ''/b/static'']"
    by (simp add: get_all_static_def example_env_def example_conf_def example_get_finder_def
          finder_of_def add_finder_dirs_def set_add_def)
  have h2: "mset (set_iter example_env [''/a/static'', ''/b/static'']) =
      mset [''/a/static'', ''/b/static'']"
    by (simp add: example_env_def)
  from SCSSCompiler_paths_option [OF h1 h2, of example_super_init "[]" "''body{color:red}''" "[]" "[]" "[]"]
  obtain v where
    init: "SCSSCompiler_init example_env example_conf example_super_init [] ''body{color:red}'' [] [] [] =
      example_super_init SCSSCompiler ([] @ [(''paths'', v)]) ''body{color:red}'' SCSSCompiler_command [] []"
    and v: "v = ''--include-path /a/static --include-path /b/static'' \<or>
      v = ''--include-path /b/static --include-path /a/static''"
    by auto
  have "SCSSCompiler_init example_env example_conf example_super_init [] ''body{color:red}'' [] [] [] =
     Inr \<lparr>cls = SCSSCompiler, command = SCSSCompiler_command,
          options = [(''paths'', ''--include-path /b/static --include-path /a/static'')],
          content = ''body{color:red}'', filename = None, infile = None,
          default_encoding = ''utf-8''\<rparr>"
    unfolding SCSSCompiler_init_def h1 by (simp add: example_super_init_def example_env_def)
  moreover have "substitute
     (options_mapping [(''paths'', ''--include-path /b/static --include-path /a/static''),
                       (''infile'', ''/tmp/tmpbbb.scss''), (''outfile'', ''/tmp/out.css'')])
     SCSSCompiler_command =
     Inr (''node-sass --output-style expanded --include-path /b/static --include-path /a/static '' @
          ''/tmp/tmpbbb.scss /tmp/out.css && postcss --use autoprefixer '' @
          ''--autoprefixer.browsers \"ie >= 9, > 5%\" -r /tmp/out.css'')"
    by (simp add: substitute_SCSSCompiler_command options_mapping_def)
  ultimately show ?thesis using h1 h2 init v by simp
qed

text \<open>
  C5. Under the same two conditions, \<open>ES6Compiler.__init__\<close> hands to the base
  initialiser the options extended by the pair for \<open>node_modules\<close> and the pair
  \<open>('paths', v)\<close>, where \<open>v\<close> is the roots, each once, joined by \<open>os.pathsep\<close>. Every
  root is a substring of \<open>v\<close>; for the roots \<open>/a/static\<close> and \<open>/b/static\<close> the value is
  the two paths with the separator between them, in one order or the other.
\<close>

theorem ES6Compiler_paths_option:
  assumes "get_all_static env conf = Inr dirs" and "mset (set_iter env dirs) = mset dirs"
  shows "\<exists>roots v nm.
           ES6Compiler_init env conf super_init opts content0 attrs args kwargs =
             super_init ES6Compiler (opts @ [(''node_modules'', nm), (''paths'', v)])
               content0 ES6Compiler_command args kwargs \<and>
           mset roots = mset dirs \<and>
           v = str_join (pathsep env) roots \<and>
           options_mapping (opts @ [(''node_modules'', nm), (''paths'', v)]) ''paths'' = Some v \<and>
           (\<forall>d \<in> set dirs. sublist d v) \<and>
           (set dirs = {''/a/static'', ''/b/static''} \<longrightarrow>
              v = ''/a/static'' @ pathsep env @ ''/b/static'' \<or>
              v = ''/b/static'' @ pathsep env @ ''/a/static'')"
proof -
  define v where "v = str_join (pathsep env) (set_iter env dirs)"
  define nm where
    "nm = (case COMPRESS_NODE_MODULES conf of None \<Rightarrow> ''/usr/lib/node_modules'' | Some x \<Rightarrow> x)"
  have init: "ES6Compiler_init env conf super_init opts content0 attrs args kwargs =
      super_init ES6Compiler (opts @ [(''node_modules'', nm), (''paths'', v)])
        content0 ES6Compiler_command args kwargs"
    unfolding ES6Compiler_init_def v_def nm_def assms(1) by (simp only: sum.case Let_def)
  have look: "options_mapping (opts @ [(''node_modules'', nm), (''paths'', v)]) ''paths'' = Some v"
    by (simp add: options_mapping_def)
  have "set (set_iter env dirs) = set dirs"
    using assms(2) by (rule mset_eq_setD)
  then have each: "\<forall>d \<in> set dirs. sublist d v"
    unfolding v_def by (auto intro!: str_join_sublist)
  have pair: "v = ''/a/static'' @ pathsep env @ ''/b/static'' \<or>
      v = ''/b/static'' @ pathsep env @ ''/a/static''"
    if "set dirs = {''/a/static'', ''/b/static''}"
  proof -
    from get_all_static_distinct [OF assms(1)] that assms(2)
    have "set_iter env dirs = [''/a/static'', ''/b/static''] \<or>
        set_iter env dirs = [''/b/static'', ''/a/static'']"
      by (intro iteration_of_pair) simp_all
    then show ?thesis by (auto simp: v_def)
  qed
  show ?thesis
    apply (rule exI [of _ "set_iter env dirs"])
    apply (rule exI [of _ v])
    apply (rule exI [of _ nm])
    apply (intro conjI impI)
         apply (rule init)
        apply (rule assms(2))
       apply (rule v_def)
      apply (rule look)
     apply (rule each)
    apply (erule pair)
    done
qed

theorem ES6Compiler_paths_option_witness:
  "get_all_static example_env example_conf = Inr [''/a/static'', ''/b/static''] \<and>
   mset (set_iter example_env [''/a/static'', ''/b/static'']) = mset [''/a/static'', ''/b/static''] \<and>
   pathsep example_env = '':'' \<and>
   ES6Compiler_init example_env example_conf example_super_init [] ''let x = 1;'' [] [] [] =
     Inr \<lparr>cls = ES6Compiler, command = ES6Compiler_command,
          options = [(''node_modules'', ''/usr/lib/node_modules''), (''paths'', ''/b/static:/a/static'')],
          content = ''let x = 1;'', filename = None, infile = None,
          default_encoding = ''utf-8''\<rparr>"
proof -
  have h1: "get_all_static example_env example_conf = Inr [''/a/static'', ''/b/static'']"
    by (simp add: get_all_static_def example_env_def example_conf_def example_get_finder_def
          finder_of_def add_finder_dirs_def set_add_def)
  have h2: "mset (set_iter example_env [''/a/static'', ''/b/static'']) =
      mset [''/a/static'', ''/b/static'']"
    by (simp add: example_env_def)
  have sep: "pathsep example_env = '':''"
    by (simp add: example_env_def)
  from ES6Compiler_paths_option [OF h1 h2, of example_super_init "[]" "''let x = 1;''" "[]" "[]" "[]"]
  obtain v where "v = ''/a/static'' @ pathsep example_env @ ''/b/static'' \<or>
      v = ''/b/static'' @ pathsep example_env @ ''/a/static''"
    by auto
  have "ES6Compiler_init example_env example_conf example_super_init [] ''let x = 1;'' [] [] [] =
     Inr \<lparr>cls = ES6Compiler, command = ES6Compiler_command,
          options = [(''node_modules'', ''/usr/lib/node_modules''), (''paths'', ''/b/static:/a/static'')],
          content = ''let x = 1;'', filename = None, infile = None,
          default_encoding = ''utf-8''\<rparr>"
    unfolding ES6Compiler_init_def h1
    by (simp add: example_super_init_def example_env_def example_conf_def)
  with h1 h2 sep show ?thesis by simp
qed

lemma add_finder_dirs_nothing_exposed: "exposed_backends fnd = [] \<Longrightarrow> add_finder_dirs fnd s = s"
  by (cases "storages fnd"; cases "storage fnd") (auto simp: exposed_backends_def add_finder_dirs_def)

lemma get_all_static_loop_nothing_exposed:
  "\<forall>i \<in> set ids. \<exists>fnd. gf i = Inr fnd \<and> exposed_backends fnd = [] \<Longrightarrow>
     get_all_static_loop gf ids s = Inr s"
  by (induction ids) (auto simp: add_finder_dirs_nothing_exposed)

text \<open>
  C6. With no finder configured, and also when every configured finder resolves and
  exposes no storage backend, \<open>get_all_static\<close> returns the empty set. When it does (and
  iterating the empty set yields nothing), the value of the option \<open>paths\<close> is the empty
  string in both constructors, and in the built commands nothing stands where \<open>{paths}\<close>
  stood.
\<close>

theorem no_roots_give_empty_paths:
  "(STATICFILES_FINDERS conf = [] \<longrightarrow> get_all_static env conf = Inr []) \<and>
   ((\<forall>i \<in> set (STATICFILES_FINDERS conf).
       \<exists>fnd. get_finder env i = Inr fnd \<and> exposed_backends fnd = []) \<longrightarrow>
      get_all_static env conf = Inr []) \<and>
   (get_all_static env conf = Inr [] \<and> mset (set_iter env []) = mset [] \<longrightarrow>
      SCSSCompiler_init env conf super_init opts content0 attrs args kwargs =
        super_init SCSSCompiler (opts @ [(''paths'', [])]) content0 SCSSCompiler_command args kwargs \<and>
      ES6Compiler_init env conf super_init opts content0 attrs args kwargs =
        super_init ES6Compiler
          (opts @ [(''node_modules'',
                    case COMPRESS_NODE_MODULES conf of None \<Rightarrow> ''/usr/lib/node_modules'' | Some x \<Rightarrow> x),
                   (''paths'', [])])
          content0 ES6Compiler_command args kwargs) \<and>
   (m ''paths'' = Some [] \<and> m ''infile'' = Some i \<and> m ''outfile'' = Some ou \<longrightarrow>
      substitute m SCSSCompiler_command =
        Inr (''node-sass --output-style expanded  '' @ i @ '' '' @ ou @
             '' && postcss --use autoprefixer --autoprefixer.browsers \"ie >= 9, > 5%\" -r '' @ ou)) \<and>
   (m ''paths'' = Some [] \<and> m ''infile'' = Some i \<and> m ''outfile'' = Some ou \<and>
    m ''node_modules'' = Some nm \<longrightarrow>
      substitute m ES6Compiler_command =
        Inr (''export NODE_PATH= && browserify \"'' @ i @ ''\" -o \"'' @ ou @
             ''\" --no-bundle-external --node -t [ '' @ nm @ ''/babelify --presets='' @ nm @
             ''/babel-preset-es2015 ]''))"
proof (intro conjI impI)
  assume "STATICFILES_FINDERS conf = []"
  then show "get_all_static env conf = Inr []"
    by (simp add: get_all_static_def)
next
  assume "\<forall>i \<in> set (STATICFILES_FINDERS conf).
       \<exists>fnd. get_finder env i = Inr fnd \<and> exposed_backends fnd = []"
  then show "get_all_static env conf = Inr []"
    unfolding get_all_static_def by (rule get_all_static_loop_nothing_exposed)
next
  assume a: "get_all_static env conf = Inr [] \<and> mset (set_iter env []) = mset []"
  then have it: "set_iter env [] = []" by simp
  show "SCSSCompiler_init env conf super_init opts content0 attrs args kwargs =
        super_init SCSSCompiler (opts @ [(''paths'', [])]) content0 SCSSCompiler_command args kwargs"
    using a it by (simp add: SCSSCompiler_init_def)
  show "ES6Compiler_init env conf super_init opts content0 attrs args kwargs =
        super_init ES6Compiler
          (opts @ [(''node_modules'',
                    case COMPRESS_NODE_MODULES conf of None \<Rightarrow> ''/usr/lib/node_modules'' | Some x \<Rightarrow> x),
                   (''paths'', [])])
          content0 ES6Compiler_command args kwargs"
    using a it by (simp add: ES6Compiler_init_def)
next
  assume "m ''paths'' = Some [] \<and> m ''infile'' = Some i \<and> m ''outfile'' = Some ou"
  then show "substitute m SCSSCompiler_command =
        Inr (''node-sass --output-style expanded  '' @ i @ '' '' @ ou @
             '' && postcss --use autoprefixer --autoprefixer.browsers \"ie >= 9, > 5%\" -r '' @ ou)"
    by (simp add: substitute_SCSSCompiler_command)
next
  assume "m ''paths'' = Some [] \<and> m ''infile'' = Some i \<and> m ''outfile'' = Some ou \<and>
    m ''node_modules'' = Some nm"
  then show "substitute m ES6Compiler_command =
        Inr (''export NODE_PATH= && browserify \"'' @ i @ ''\" -o \"'' @ ou @
             ''\" --no-bundle-external --node -t [ '' @ nm @ ''/babelify --presets='' @ nm @
             ''/babel-preset-es2015 ]'')"
    by (simp add: substitute_ES6Compiler_command)
qed

theorem no_roots_give_empty_paths_witness:
  "STATICFILES_FINDERS (example_conf\<lparr>STATICFILES_FINDERS := []\<rparr>) = [] \<and>
   get_all_static example_env (example_conf\<lparr>STATICFILES_FINDERS := []\<rparr>) = Inr [] \<and>
   get_finder example_env ''bare'' = Inr (finder_of ''bare'') \<and>
   exposed_backends (finder_of ''bare'') = [] \<and>
   get_all_static example_env (example_conf\<lparr>STATICFILES_FINDERS := [''bare'']\<rparr>) = Inr [] \<and>
   mset (set_iter example_env []) = mset [] \<and>
   SCSSCompiler_init example_env (example_conf\<lparr>STATICFILES_FINDERS := []\<rparr>) example_super_init
       [] ''body{color:red}'' [] [] [] =
     Inr \<lparr>cls = SCSSCompiler, command = SCSSCompiler_command, options = [(''paths'', '''')],
          content = ''body{color:red}'', filename = None, infile = None,
          default_encoding = ''utf-8''\<rparr> \<and>
   substitute
     (options_mapping [(''paths'', ''''), (''infile'', ''/tmp/tmpbbb.scss''), (''outfile'', ''/tmp/out.css'')])
     SCSSCompiler_command =
     Inr (''node-sass --output-style expanded  /tmp/tmpbbb.scss /tmp/out.css && '' @
          ''postcss --use autoprefixer --autoprefixer.browsers \"ie >= 9, > 5%\" -r /tmp/out.css'') \<and>
   substitute
     (options_mapping [(''node_modules'', ''/usr/lib/node_modules''), (''paths'', ''''),
                       (''infile'', ''/tmp/in.js''), (''outfile'', ''/tmp/out.js'')])
     ES6Compiler_command =
     Inr (''export NODE_PATH= && browserify \"/tmp/in.js\" -o \"/tmp/out.js\" '' @
          ''--no-bundle-external --node -t [ /usr/lib/node_modules/babelify '' @
          ''--presets=/usr/lib/node_modules/babel-preset-es2015 ]'')"
proof -
  let ?none = "example_conf\<lparr>STATICFILES_FINDERS := []\<rparr>"
  let ?bare = "example_conf\<lparr>STATICFILES_FINDERS := [''bare'']\<rparr>"
  let ?m1 = "options_mapping [(''paths'', ''''), (''infile'', ''/tmp/tmpbbb.scss''),
    (''outfile'', ''/tmp/out.css'')]"
  let ?m2 = "options_mapping [(''node_modules'', ''/usr/lib/node_modules''), (''paths'', ''''),
    (''infile'', ''/tmp/in.js''), (''outfile'', ''/tmp/out.js'')]"
  have h0: "STATICFILES_FINDERS ?none = []" by simp
  have hb: "get_finder example_env ''bare'' = Inr (finder_of ''bare'')"
    and he: "exposed_backends (finder_of ''bare'') = []"
    by (simp_all add: example_env_def example_get_finder_def finder_of_def exposed_backends_def)
  from hb he
  have hall: "\<forall>i \<in> set (STATICFILES_FINDERS ?bare).
      \<exists>fnd. get_finder example_env i = Inr fnd \<and> exposed_backends fnd = []"
    by simp
  have hi: "mset (set_iter example_env []) = mset []"
    by (simp add: example_env_def)
  note t1 = no_roots_give_empty_paths [of ?none example_env example_super_init "[]"
      "''body{color:red}''" "[]" "[]" "[]" ?m1 "''/tmp/tmpbbb.scss''" "''/tmp/out.css''" "[]"]
  note t2 = no_roots_give_empty_paths [of ?bare example_env example_super_init "[]"
      "''body{color:red}''" "[]" "[]" "[]" ?m2 "''/tmp/in.js''" "''/tmp/out.js''"
      "''/usr/lib/node_modules''"]
  from t1 h0 have g0: "get_all_static example_env ?none = Inr []" by blast
  from t2 hall have g1: "get_all_static example_env ?bare = Inr []" by blast
  from t1 g0 hi
  have i1: "SCSSCompiler_init example_env ?none example_super_init [] ''body{color:red}'' [] [] [] =
      example_super_init SCSSCompiler ([] @ [(''paths'', [])]) ''body{color:red}''
        SCSSCompiler_command [] []"
    by blast
  have m1: "?m1 ''paths'' = Some [] \<and> ?m1 ''infile'' = Some ''/tmp/tmpbbb.scss'' \<and>
      ?m1 ''outfile'' = Some ''/tmp/out.css''"
    by (simp add: options_mapping_def)
  have m2: "?m2 ''paths'' = Some [] \<and> ?m2 ''infile'' = Some ''/tmp/in.js'' \<and>
      ?m2 ''outfile'' = Some ''/tmp/out.js'' \<and> ?m2 ''node_modules'' = Some ''/usr/lib/node_modules''"
    by (simp add: options_mapping_def)
  from t1 m1 have s1: "substitute ?m1 SCSSCompiler_command =
      Inr (''node-sass --output-style expanded  '' @ ''/tmp/tmpbbb.scss'' @ '' '' @ ''/tmp/out.css'' @
        '' && postcss --use autoprefixer --autoprefixer.browsers \"ie >= 9, > 5%\" -r '' @
        ''/tmp/out.css'')"
    by blast
  from t2 m2 have s2: "substitute ?m2 ES6Compiler_command =
      Inr (''export NODE_PATH= && browserify \"'' @ ''/tmp/in.js'' @ ''\" -o \"'' @ ''/tmp/out.js'' @
        ''\" --no-bundle-external --node -t [ '' @ ''/usr/lib/node_modules'' @
        ''/babelify --presets='' @ ''/usr/lib/node_modules'' @ ''/babel-preset-es2015 ]'')"
    by blast
  from i1 have i1': "SCSSCompiler_init example_env ?none example_super_init [] ''body{color:red}'' [] [] [] =
     Inr \<lparr>cls = SCSSCompiler, command = SCSSCompiler_command, options = [(''paths'', '''')],
          content = ''body{color:red}'', filename = None, infile = None,
          default_encoding = ''utf-8''\<rparr>"
    by (simp add: example_super_init_def)
  from s1 have s1': "substitute ?m1 SCSSCompiler_command =
     Inr (''node-sass --output-style expanded  /tmp/tmpbbb.scss /tmp/out.css && '' @
          ''postcss --use autoprefixer --autoprefixer.browsers \"ie >= 9, > 5%\" -r /tmp/out.css'')"
    by simp
  from s2 have s2': "substitute ?m2 ES6Compiler_command =
     Inr (''export NODE_PATH= && browserify \"/tmp/in.js\" -o \"/tmp/out.js\" '' @
          ''--no-bundle-external --node -t [ /usr/lib/node_modules/babelify '' @
          ''--presets=/usr/lib/node_modules/babel-preset-es2015 ]'')"
    by simp
  from h0 g0 hb he g1 hi i1' s1' s2' show ?thesis
    by (intro conjI)
qed

text \<open>
  C10. When \<open>get_all_static\<close> returns, so that the job is constructed,
  \<open>ES6Compiler.__init__\<close> hands to the base initialiser the options extended by the pair
  \<open>('node_modules', nm)\<close> followed by the pair for \<open>paths\<close>, where \<open>nm\<close> is the setting
  \<open>COMPRESS_NODE_MODULES\<close> when it exists and \<open>/usr/lib/node_modules\<close> when it does not.
  In the options mapping \<open>node_modules\<close> has that value, and in the command built from
  the template of the class that value stands in both places where \<open>{node_modules}\<close>
  stood.
\<close>

theorem ES6Compiler_node_modules_option:
  assumes "get_all_static env conf = Inr dirs"
  shows "\<exists>nm p.
           ES6Compiler_init env conf super_init opts content0 attrs args kwargs =
             super_init ES6Compiler (opts @ [(''node_modules'', nm), (''paths'', p)])
               content0 ES6Compiler_command args kwargs \<and>
           (\<forall>x. COMPRESS_NODE_MODULES conf = Some x \<longrightarrow> nm = x) \<and>
           (COMPRESS_NODE_MODULES conf = None \<longrightarrow> nm = ''/usr/lib/node_modules'') \<and>
           options_mapping (opts @ [(''node_modules'', nm), (''paths'', p)]) ''node_modules'' = Some nm \<and>
           (\<forall>m q i ou. m ''node_modules'' = Some nm \<and> m ''paths'' = Some q \<and>
                m ''infile'' = Some i \<and> m ''outfile'' = Some ou \<longrightarrow>
              substitute m ES6Compiler_command =
                Inr (''export NODE_PATH='' @ q @ '' && browserify \"'' @ i @ ''\" -o \"'' @ ou @
                     ''\" --no-bundle-external --node -t [ '' @ nm @ ''/babelify --presets='' @ nm @
                     ''/babel-preset-es2015 ]''))"
proof -
  define p where "p = str_join (pathsep env) (set_iter env dirs)"
  define nm where
    "nm = (case COMPRESS_NODE_MODULES conf of None \<Rightarrow> ''/usr/lib/node_modules'' | Some x \<Rightarrow> x)"
  have init: "ES6Compiler_init env conf super_init opts content0 attrs args kwargs =
      super_init ES6Compiler (opts @ [(''node_modules'', nm), (''paths'', p)])
        content0 ES6Compiler_command args kwargs"
    unfolding ES6Compiler_init_def p_def nm_def assms(1) by (simp only: sum.case Let_def)
  have some: "\<forall>x. COMPRESS_NODE_MODULES conf = Some x \<longrightarrow> nm = x"
    and none: "COMPRESS_NODE_MODULES conf = None \<longrightarrow> nm = ''/usr/lib/node_modules''"
    by (simp_all add: nm_def)
  have look: "options_mapping (opts @ [(''node_modules'', nm), (''paths'', p)]) ''node_modules'' = Some nm"
    by (simp add: options_mapping_def)
  have built: "substitute m ES6Compiler_command =
      Inr (''export NODE_PATH='' @ q @ '' && browserify \"'' @ i @ ''\" -o \"'' @ ou @
           ''\" --no-bundle-external --node -t [ '' @ nm @ ''/babelify --presets='' @ nm @
           ''/babel-preset-es2015 ]'')"
    if "m ''node_modules'' = Some nm \<and> m ''paths'' = Some q \<and>
        m ''infile'' = Some i \<and> m ''outfile'' = Some ou" for m q i ou
    using that by (simp add: substitute_ES6Compiler_command)
  show ?thesis
    apply (rule exI [of _ nm])
    apply (rule exI [of _ p])
    apply (intro conjI)
        apply (rule init)
       apply (rule some)
      apply (rule none)
     apply (rule look)
    apply (intro allI impI)
    apply (erule built)
    done
qed

theorem ES6Compiler_node_modules_option_witness:
  "get_all_static example_env example_conf = Inr [''/a/static'', ''/b/static''] \<and>
   COMPRESS_NODE_MODULES example_conf = None \<and>
   map_sum id options
     (ES6Compiler_init example_env example_conf example_super_init [] ''let x = 1;'' [] [] []) =
     Inr [(''node_modules'', ''/usr/lib/node_modules''), (''paths'', ''/b/static:/a/static'')] \<and>
   get_all_static example_env (example_conf\<lparr>COMPRESS_NODE_MODULES := Some ''/opt/nm''\<rparr>) =
     Inr [''/a/static'', ''/b/static''] \<and>
   map_sum id options
     (ES6Compiler_init example_env (example_conf\<lparr>COMPRESS_NODE_MODULES := Some ''/opt/nm''\<rparr>)
        example_super_init [] ''let x = 1;'' [] [] []) =
     Inr [(''node_modules'', ''/opt/nm''), (''paths'', ''/b/static:/a/static'')] \<and>
   substitute
     (options_mapping [(''node_modules'', ''/opt/nm''), (''paths'', ''/b/static:/a/static''),
                       (''infile'', ''/tmp/in.js''), (''outfile'', ''/tmp/out.js'')])
     ES6Compiler_command =
     Inr (''export NODE_PATH=/b/static:/a/static && browserify \"/tmp/in.js\" -o \"/tmp/out.js\" '' @
          ''--no-bundle-external --node -t [ /opt/nm/babelify '' @
          ''--presets=/opt/nm/babel-preset-es2015 ]'')"
proof -
  let ?conf = "example_conf\<lparr>COMPRESS_NODE_MODULES := Some ''/opt/nm''\<rparr>"
  let ?m = "options_mapping [(''node_modules'', ''/opt/nm''), (''paths'', ''/b/static:/a/static''),
                       (''infile'', ''/tmp/in.js''), (''outfile'', ''/tmp/out.js'')]"
  have h1: "get_all_static example_env example_conf = Inr [''/a/static'', ''/b/static'']"
    by (simp add: get_all_static_def example_env_def example_conf_def example_get_finder_def
          finder_of_def add_finder_dirs_def set_add_def)
  have h2: "get_all_static example_env ?conf = Inr [''/a/static'', ''/b/static'']"
    by (simp add: get_all_static_def example_env_def example_conf_def example_get_finder_def
          finder_of_def add_finder_dirs_def set_add_def)
  have n1: "COMPRESS_NODE_MODULES example_conf = None"
    by (simp add: example_conf_def)
  have i1: "map_sum id options
     (ES6Compiler_init example_env example_conf example_super_init [] ''let x = 1;'' [] [] []) =
     Inr [(''node_modules'', ''/usr/lib/node_modules''), (''paths'', ''/b/static:/a/static'')]"
    unfolding ES6Compiler_init_def h1
    by (simp add: example_super_init_def example_env_def example_conf_def)
  have i2: "map_sum id options
     (ES6Compiler_init example_env ?conf example_super_init [] ''let x = 1;'' [] [] []) =
     Inr [(''node_modules'', ''/opt/nm''), (''paths'', ''/b/static:/a/static'')]"
    unfolding ES6Compiler_init_def h2
    by (simp add: example_super_init_def example_env_def example_conf_def)
  from ES6Compiler_node_modules_option [OF h2, of example_super_init "[]" "''let x = 1;''" "[]" "[]" "[]"]
  obtain nm where nm: "nm = ''/opt/nm''"
    and built: "\<forall>m q i ou. m ''node_modules'' = Some nm \<and> m ''paths'' = Some q \<and>
                m ''infile'' = Some i \<and> m ''outfile'' = Some ou \<longrightarrow>
              substitute m ES6Compiler_command =
                Inr (''export NODE_PATH='' @ q @ '' && browserify \"'' @ i @ ''\" -o \"'' @ ou @
                     ''\" --no-bundle-external --node -t [ '' @ nm @ ''/babelify --presets='' @ nm @
                     ''/babel-preset-es2015 ]'')"
    by auto
  have m: "?m ''node_modules'' = Some nm \<and> ?m ''paths'' = Some ''/b/static:/a/static'' \<and>
      ?m ''infile'' = Some ''/tmp/in.js'' \<and> ?m ''outfile'' = Some ''/tmp/out.js''"
    by (simp add: options_mapping_def nm)
  from built m have "substitute ?m ES6Compiler_command =
      Inr (''export NODE_PATH='' @ ''/b/static:/a/static'' @ '' && browserify \"'' @ ''/tmp/in.js'' @
        ''\" -o \"'' @ ''/tmp/out.js'' @ ''\" --no-bundle-external --node -t [ '' @ nm @
        ''/babelify --presets='' @ nm @ ''/babel-preset-es2015 ]'')"
    by blast
  then have s: "substitute ?m ES6Compiler_command =
     Inr (''export NODE_PATH=/b/static:/a/static && browserify \"/tmp/in.js\" -o \"/tmp/out.js\" '' @
          ''--no-bundle-external --node -t [ /opt/nm/babelify '' @
          ''--presets=/opt/nm/babel-preset-es2015 ]'')"
    by (simp add: nm)
  from h1 n1 i1 h2 i2 s show ?thesis
    by (intro conjI)
qed

section \<open>Properties of the substitution\<close>

lemma fill_missing:
  "Placeholder n \<in> set ps \<Longrightarrow> m n = None \<Longrightarrow>
     \<exists>k. Placeholder k \<in> set ps \<and> m k = None \<and> fill m ps = Inl (TemplateSubstitutionError k)"
proof (induction ps)
  case Nil
  then show ?case by simp
next
  case (Cons q qs)
  show ?case
  proof (cases q)
    case (Lit c)
    with Cons.prems have "Placeholder n \<in> set qs" by auto
    from Cons.IH [OF this Cons.prems(2)] Lit show ?thesis by auto
  next
    case (Placeholder k)
    show ?thesis
    proof (cases "m k")
      case None
      with Placeholder show ?thesis by auto
    next
      case (Some v)
      with Placeholder Cons.prems have "Placeholder n \<in> set qs" by auto
      from Cons.IH [OF this Cons.prems(2)] Placeholder Some show ?thesis by auto
    qed
  qed
qed

lemma fill_Inr:
  "fill m ps = Inr cmd \<Longrightarrow>
     (\<forall>k. Placeholder k \<in> set ps \<longrightarrow> (\<exists>v. m k = Some v)) \<and>
     cmd = concat (map (\<lambda>q. case q of Lit c \<Rightarrow> [c]
                              | Placeholder k \<Rightarrow> (case m k of None \<Rightarrow> [] | Some v \<Rightarrow> v)) ps)"
proof (induction ps arbitrary: cmd)
  case Nil
  then show ?case by simp
next
  case (Cons q qs)
  then show ?case
    by (cases q) (auto split: option.splits sum.splits)
qed

text \<open>
  C8. Let a well-formed template contain a placeholder whose name has no value in the
  options mapping. Then building the command fails with the substitution error for a
  placeholder of the template that has no value (the first one), and no command is
  handed to the process invoker. Whatever the template and the mapping, a command that
  is handed to the invoker is the template with every placeholder replaced by its
  value: no placeholder is left in it unreplaced.
\<close>

theorem unresolved_placeholder_fails_before_invocation:
  "(pieces None template = Some ps \<and> Placeholder n \<in> set ps \<and> m n = None \<longrightarrow>
      (\<exists>k. Placeholder k \<in> set ps \<and> m k = None \<and>
           build_and_invoke invoke template m = (Inl (TemplateSubstitutionError k), []))) \<and>
   (\<forall>cmd \<in> set (snd (build_and_invoke invoke template m)).
      \<exists>qs. pieces None template = Some qs \<and>
        (\<forall>k. Placeholder k \<in> set qs \<longrightarrow> (\<exists>v. m k = Some v)) \<and>
        cmd = concat (map (\<lambda>q. case q of Lit c \<Rightarrow> [c]
                                 | Placeholder k \<Rightarrow> (case m k of None \<Rightarrow> [] | Some v \<Rightarrow> v)) qs))"
proof (intro conjI impI ballI)
  assume a: "pieces None template = Some ps \<and> Placeholder n \<in> set ps \<and> m n = None"
  then obtain k where "Placeholder k \<in> set ps" and "m k = None"
    and "fill m ps = Inl (TemplateSubstitutionError k)"
    using fill_missing [of n ps m] by blast
  with a show "\<exists>k. Placeholder k \<in> set ps \<and> m k = None \<and>
           build_and_invoke invoke template m = (Inl (TemplateSubstitutionError k), [])"
    by (auto simp: build_and_invoke_def substitute_def)
next
  fix cmd
  assume "cmd \<in> set (snd (build_and_invoke invoke template m))"
  then obtain qs where "pieces None template = Some qs" and "fill m qs = Inr cmd"
    by (auto simp: build_and_invoke_def substitute_def split: sum.splits option.splits)
  with fill_Inr [of m qs cmd]
  show "\<exists>qs. pieces None template = Some qs \<and>
        (\<forall>k. Placeholder k \<in> set qs \<longrightarrow> (\<exists>v. m k = Some v)) \<and>
        cmd = concat (map (\<lambda>q. case q of Lit c \<Rightarrow> [c]
                                 | Placeholder k \<Rightarrow> (case m k of None \<Rightarrow> [] | Some v \<Rightarrow> v)) qs)"
    by blast
qed

theorem unresolved_placeholder_fails_before_invocation_witness:
  "pieces None ''sass {missing} {infile}'' =
     Some [Lit CHR ''s'', Lit CHR ''a'', Lit CHR ''s'', Lit CHR ''s'', Lit CHR '' '',
           Placeholder ''missing'', Lit CHR '' '', Placeholder ''infile''] \<and>
   options_mapping [(''infile'', ''/tmp/in.scss'')] ''missing'' = None \<and>
   build_and_invoke Inr ''sass {missing} {infile}'' (options_mapping [(''infile'', ''/tmp/in.scss'')]) =
     (Inl (TemplateSubstitutionError ''missing''), []) \<and>
   build_and_invoke Inr ES6Compiler_command
     (options_mapping [(''paths'', ''/a/static''), (''infile'', ''/tmp/in.js''), (''outfile'', ''/tmp/out.js'')]) =
     (Inl (TemplateSubstitutionError ''node_modules''), []) \<and>
   build_and_invoke Inr ''sass {infile}'' (options_mapping [(''infile'', ''/tmp/in.scss'')]) =
     (Inr ''sass /tmp/in.scss'', [''sass /tmp/in.scss''])"
proof -
  let ?m = "options_mapping [(''infile'', ''/tmp/in.scss'')]"
  have p: "pieces None ''sass {missing} {infile}'' =
     Some [Lit CHR ''s'', Lit CHR ''a'', Lit CHR ''s'', Lit CHR ''s'', Lit CHR '' '',
           Placeholder ''missing'', Lit CHR '' '', Placeholder ''infile'']"
    by simp
  have n: "?m ''missing'' = None"
    by (simp add: options_mapping_def)
  have i: "Placeholder ''missing'' \<in> set [Lit CHR ''s'', Lit CHR ''a'', Lit CHR ''s'', Lit CHR ''s'',
      Lit CHR '' '', Placeholder ''missing'', Lit CHR '' '', Placeholder ''infile'']"
    by simp
  from unresolved_placeholder_fails_before_invocation
         [of "''sass {missing} {infile}''" _ "''missing''" ?m Inr] p n i
  obtain k where k: "?m k = None"
    and "build_and_invoke Inr ''sass {missing} {infile}'' ?m = (Inl (TemplateSubstitutionError k), [])"
    by blast
  have b1: "build_and_invoke Inr ''sass {missing} {infile}'' ?m =
      (Inl (TemplateSubstitutionError ''missing''), [])"
    by (simp add: build_and_invoke_def substitute_def options_mapping_def)
  have b2: "build_and_invoke Inr ES6Compiler_command
     (options_mapping [(''paths'', ''/a/static''), (''infile'', ''/tmp/in.js''), (''outfile'', ''/tmp/out.js'')]) =
     (Inl (TemplateSubstitutionError ''node_modules''), [])"
    by (simp add: build_and_invoke_def substitute_def options_mapping_def ES6Compiler_command_def)
  have b3: "build_and_invoke Inr ''sass {infile}'' ?m =
     (Inr ''sass /tmp/in.scss'', [''sass /tmp/in.scss''])"
    by (simp add: build_and_invoke_def substitute_def options_mapping_def)
  from p n b1 b2 b3 k show ?thesis
    by (intro conjI)
qed

end
